theory Spec2Isabelle
  imports Main
begin

section \<open>Python built-ins used by the converter\<close>

text \<open>
  The embedding covers the two functions of \<^verbatim>\<open>C2VSimFG_MapHeads.py\<close> that turn an IWFM
  heads output file into CSV text: \<^verbatim>\<open>get_header_from_headsout_file\<close> and
  \<^verbatim>\<open>headsout_to_csv\<close>. A file opened for reading is the list of the lines its iterator
  yields (each with its line terminator, so never empty for a real file); a character is a
  code point below 256.

  The exceptions the two functions can raise. \<open>ValueError\<close> carries its message.
  \<open>UnboundLocalError\<close> is the subclass of \<open>NameError\<close> that Python raises when a local
  variable is read before it is assigned.
\<close>

datatype py_error = IndexError | TypeError | UnboundLocalError | ValueError string

text \<open>\<^verbatim>\<open>str.isspace\<close> on the code points below 256.\<close>

definition isspace :: "char \<Rightarrow> bool" where
  "isspace c \<longleftrightarrow>
     c \<in> set [CHR 0x09, CHR 0x0A, CHR 0x0B, CHR 0x0C, CHR 0x0D, CHR 0x1C, CHR 0x1D,
              CHR 0x1E, CHR 0x1F, CHR 0x20, CHR 0x85, CHR 0xA0]"

text \<open>
  \<^verbatim>\<open>s.split()\<close> without arguments: the maximal runs of non-whitespace characters, in
  order. \<open>split_from cur s\<close> scans \<open>s\<close> with \<open>cur\<close> the token read so far.
\<close>

fun split_from :: "string \<Rightarrow> string \<Rightarrow> string list" where
  "split_from cur [] = (if cur = [] then [] else [cur])"
| "split_from cur (c # cs) =
     (if isspace c then (if cur = [] then split_from [] cs else cur # split_from [] cs)
      else split_from (cur @ [c]) cs)"

definition py_split :: "string \<Rightarrow> string list" where
  "py_split s = split_from [] s"

text \<open>\<^verbatim>\<open>sep.join(xs)\<close>.\<close>

fun py_join :: "string \<Rightarrow> string list \<Rightarrow> string" where
  "py_join sep [] = []"
| "py_join sep [x] = x"
| "py_join sep (x # y # ys) = x @ sep @ py_join sep (y # ys)"

text \<open>\<^verbatim>\<open>str(n)\<close> for a non-negative integer: its decimal digits.\<close>

definition digit_char :: "nat \<Rightarrow> char" where
  "digit_char d = ''0123456789'' ! d"

fun py_str :: "nat \<Rightarrow> string" where
  "py_str n = (if n < 10 then [digit_char n] else py_str (n div 10) @ [digit_char (n mod 10)])"

declare py_str.simps [simp del]

text \<open>
  \<^verbatim>\<open>xs.insert(i, x)\<close> for \<open>i \<ge> 0\<close>: an index past the end appends. \<^verbatim>\<open>xs[1:]\<close> is
  \<open>drop 1 xs\<close>.
\<close>

definition list_insert :: "nat \<Rightarrow> 'a \<Rightarrow> 'a list \<Rightarrow> 'a list" where
  "list_insert i x xs = take i xs @ x # drop i xs"

section \<open>Header extraction\<close>

text \<open>
  \<^verbatim>\<open>get_header_from_headsout_file\<close>. \<open>prev\<close> is the local \<^verbatim>\<open>previous_line\<close>, \<open>None\<close>
  while it is unbound. \<^verbatim>\<open>line[0]\<close> raises \<open>IndexError\<close> on the empty string, which the
  handler for \<open>NameError\<close> does not catch. Reading the unbound \<^verbatim>\<open>previous_line\<close> raises
  a \<open>NameError\<close>, whose handler returns \<open>None\<close>; a loop that ends without a return gives
  \<open>None\<close> too. The result is \<open>Inl\<close> an exception, \<open>Inr None\<close> for Python's \<open>None\<close>, or
  \<open>Inr (Some header)\<close>.
\<close>

fun get_header_loop :: "string option \<Rightarrow> string list \<Rightarrow> py_error + string list option" where
  "get_header_loop prev [] = Inr None"
| "get_header_loop prev (line # rest) =
     (case line of
        [] \<Rightarrow> Inl IndexError
      | c # _ \<Rightarrow>
          if c \<noteq> CHR ''*'' then
            (case prev of
               None \<Rightarrow> Inr None
             | Some previous_line \<Rightarrow> Inr (Some (drop 1 (py_split previous_line))))
          else get_header_loop (Some line) rest)"

definition get_header_from_headsout_file :: "string list \<Rightarrow> py_error + string list option" where
  "get_header_from_headsout_file f = get_header_loop None f"

section \<open>Conversion to CSV\<close>

text \<open>
  The locals of \<^verbatim>\<open>headsout_to_csv\<close> that live across loop iterations, and the text written
  to \<^verbatim>\<open>out_csv\<close> so far. \<open>layer\<close> and \<open>date\<close> are \<open>None\<close> while unbound. \<open>line_list\<close> is
  assigned before each of its uses, so its value while unbound is never read and is taken
  as \<open>[]\<close>. The layer counter only takes the value 1 and increments of it, so it is a
  natural number.
\<close>

record conv_state =
  layer :: "nat option"
  date :: "string option"
  line_list :: "string list"
  out_csv :: string

definition unbound :: conv_state where
  "unbound = \<lparr>layer = None, date = None, line_list = [], out_csv = []\<rparr>"

text \<open>
  Lines 55 to 68: the choice between a line with a date, a line without one, and the
  \<open>ValueError\<close>. The comparison with \<^verbatim>\<open>num_columns - 1\<close> is on integers, so it fails for
  every line when \<^verbatim>\<open>num_columns\<close> is 0.
\<close>

definition shape_line :: "nat \<Rightarrow> nat \<Rightarrow> conv_state \<Rightarrow> conv_state \<times> py_error option" where
  "shape_line num_columns i st =
     (if length (line_list st) = num_columns then
        let st1 = st\<lparr>layer := Some 1\<rparr> in
        (case line_list st1 of
           [] \<Rightarrow> (st1, Some IndexError)
         | d # _ \<Rightarrow> (st1\<lparr>date := Some d\<rparr>, None))
      else if int (length (line_list st)) = int num_columns - 1 then
        (case layer st of
           None \<Rightarrow> (st, Some UnboundLocalError)
         | Some k \<Rightarrow>
             let st1 = st\<lparr>layer := Some (k + 1)\<rparr> in
             (case date st1 of
                None \<Rightarrow> (st1, Some UnboundLocalError)
              | Some d \<Rightarrow> (st1\<lparr>line_list := list_insert 0 d (line_list st1)\<rparr>, None)))
      else
        (st, Some (ValueError (''line '' @ py_str (i + 1) @
                     '' in file does not have the correct number of values''))))"

text \<open>
  Lines 53 to 72: one iteration of the loop, on line \<open>i\<close> (counted from 0, as
  \<^verbatim>\<open>enumerate\<close> does). The result is the state reached and the exception raised, if any.
\<close>

definition loop_body :: "nat \<Rightarrow> nat \<Rightarrow> string \<Rightarrow> conv_state \<Rightarrow> conv_state \<times> py_error option" where
  "loop_body num_columns i line st =
     (case line of
        [] \<Rightarrow> (st, Some IndexError)
      | c # _ \<Rightarrow>
          if c \<noteq> CHR ''*'' then
            (case shape_line num_columns i (st\<lparr>line_list := py_split line\<rparr>) of
               (st1, Some e) \<Rightarrow> (st1, Some e)
             | (st1, None) \<Rightarrow>
                 let st2 = st1\<lparr>out_csv := out_csv st1 @ ''\<newline>''\<rparr> in
                 (case layer st2 of
                    None \<Rightarrow> (st2, Some UnboundLocalError)
                  | Some k \<Rightarrow>
                      let st3 = st2\<lparr>line_list := list_insert 1 (py_str k) (line_list st2)\<rparr>
                      in (st3\<lparr>out_csv := out_csv st3 @ py_join '','' (line_list st3)\<rparr>, None)))
          else (st, None))"

fun for_lines :: "nat \<Rightarrow> nat \<Rightarrow> string list \<Rightarrow> conv_state \<Rightarrow> conv_state \<times> py_error option" where
  "for_lines num_columns i [] st = (st, None)"
| "for_lines num_columns i (line # rest) st =
     (case loop_body num_columns i line st of
        (st1, Some e) \<Rightarrow> (st1, Some e)
      | (st1, None) \<Rightarrow> for_lines num_columns (i + 1) rest st1)"

text \<open>
  The state in which the loop starts: the header line written, with \<open>Layer\<close> inserted at
  position 1.
\<close>

definition start :: "string list \<Rightarrow> conv_state" where
  "start header = unbound\<lparr>out_csv := py_join '','' (list_insert 1 ''Layer'' header)\<rparr>"

text \<open>
  \<^verbatim>\<open>headsout_to_csv\<close>, on a file read twice with the same content. \<^verbatim>\<open>len(header)\<close>
  raises \<open>TypeError\<close> when the header is \<open>None\<close>, before the output file is opened.
\<close>

definition headsout_to_csv :: "string list \<Rightarrow> conv_state \<times> py_error option" where
  "headsout_to_csv f =
     (case get_header_from_headsout_file f of
        Inl e \<Rightarrow> (unbound, Some e)
      | Inr None \<Rightarrow> (unbound, Some TypeError)
      | Inr (Some header) \<Rightarrow> for_lines (length header) 0 f (start header))"

section \<open>Vocabulary of the properties\<close>

text \<open>
  The loop tests \<^verbatim>\<open>line[0] != '*'\<close>: a line is a marker line when it starts with \<open>*\<close>, and
  a data line when it is not empty and starts with anything else.
\<close>

definition is_marker :: "string \<Rightarrow> bool" where
  "is_marker line = (case line of [] \<Rightarrow> False | c # _ \<Rightarrow> c = CHR ''*'')"

definition is_data :: "string \<Rightarrow> bool" where
  "is_data line = (case line of [] \<Rightarrow> False | c # _ \<Rightarrow> c \<noteq> CHR ''*'')"

definition data_lines :: "string list \<Rightarrow> string list" where
  "data_lines f = filter is_data f"

text \<open>
  The states in which the iterations on data lines end, in order, up to the first
  exception: \<open>line_list\<close> of such a state is the record written for the line, \<open>layer\<close> its
  layer number.
\<close>

fun trace :: "nat \<Rightarrow> nat \<Rightarrow> string list \<Rightarrow> conv_state \<Rightarrow> conv_state list" where
  "trace num_columns i [] st = []"
| "trace num_columns i (line # rest) st =
     (case loop_body num_columns i line st of
        (st1, Some e) \<Rightarrow> []
      | (st1, None) \<Rightarrow>
          (if is_data line then [st1] else []) @ trace num_columns (i + 1) rest st1)"

text \<open>The text written for one record: a line break, then the fields joined by commas.\<close>

definition render :: "conv_state \<Rightarrow> string" where
  "render st = ''\<newline>'' @ py_join '','' (line_list st)"

text \<open>A list without its element at position \<open>i\<close>.\<close>

definition del_at :: "nat \<Rightarrow> 'a list \<Rightarrow> 'a list" where
  "del_at i xs = take i xs @ drop (Suc i) xs"

text \<open>
  What an iteration that raises nothing does on a data line \<open>l\<close>, from state \<open>p\<close> to
  state \<open>s\<close>: with \<open>n\<close> tokens the line carries its date \<open>d\<close> and gets layer 1; with
  \<open>n - 1\<close> tokens it inherits the date and gets the next layer.
\<close>

definition accepts :: "nat \<Rightarrow> conv_state \<Rightarrow> string \<Rightarrow> conv_state \<Rightarrow> bool" where
  "accepts n p l s \<longleftrightarrow>
     (if length (py_split l) = n then
        (\<exists>d ts. py_split l = d # ts \<and>
           s = p\<lparr>layer := Some 1, date := Some d, line_list := d # py_str 1 # ts,
                 out_csv := out_csv p @ ''\<newline>'' @ py_join '','' (d # py_str 1 # ts)\<rparr>)
      else
        int (length (py_split l)) = int n - 1 \<and>
        (\<exists>k d. layer p = Some k \<and> date p = Some d \<and>
           s = p\<lparr>layer := Some (k + 1), line_list := d # py_str (k + 1) # py_split l,
                 out_csv := out_csv p @ ''\<newline>'' @
                   py_join '','' (d # py_str (k + 1) # py_split l)\<rparr>))"

text \<open>
  The states after the data lines of \<open>f\<close>, when the conversion runs with the header
  \<open>header\<close>.
\<close>

definition run_trace :: "string list \<Rightarrow> string list \<Rightarrow> conv_state list" where
  "run_trace header f = trace (length header) 0 f (start header)"

text \<open>Reading a decimal numeral back, the inverse of \<open>py_str\<close>.\<close>

definition digit_val :: "char \<Rightarrow> nat" where
  "digit_val c = of_char c - 48"

definition py_int :: "string \<Rightarrow> nat" where
  "py_int s = foldl (\<lambda>a c. 10 * a + digit_val c) 0 s"

text \<open>
  Three small files. \<open>sample_file\<close> converts without an exception: a line with a date, a
  line without one, a marker line, a line with a date. \<open>bad_count_file\<close> has a line of four
  tokens under a header of three columns. \<open>orphan_file\<close> starts its data with a line
  without a date.
\<close>

definition sample_header :: "string list" where
  "sample_header = [''TIME'', ''1'', ''2'']"

definition sample_file :: "string list" where
  "sample_file =
     [''* TIME 1 2\<newline>'', ''01/01/2000_0000 1.1 2.2\<newline>'', ''3.3 4.4\<newline>'',
      ''*\<newline>'', ''02/01/2000_0000 5.5 6.6\<newline>'']"

definition bad_count_file :: "string list" where
  "bad_count_file =
     [''* TIME 1 2\<newline>'', ''01/01/2000_0000 1.1 2.2\<newline>'', ''*\<newline>'',
      ''3.3 4.4 5.5 6.6\<newline>'', ''7 8\<newline>'']"

definition orphan_file :: "string list" where
  "orphan_file =
     [''*\<newline>'', ''* TIME 1 2\<newline>'', ''3.3 4.4\<newline>'', ''x y z\<newline>'']"

section \<open>Evaluation and basic facts\<close>

lemmas eval_defs =
  headsout_to_csv_def get_header_from_headsout_file_def py_split_def isspace_def start_def
  unbound_def list_insert_def loop_body_def shape_line_def py_str.simps digit_char_def

lemma split_from_spaces: "\<forall>c \<in> set s. isspace c \<Longrightarrow> split_from [] s = []"
  by (induction s) auto

lemma py_split_spaces: "\<forall>c \<in> set s. isspace c \<Longrightarrow> py_split s = []"
  by (simp add: py_split_def split_from_spaces)

lemma isspace_not_star: "isspace c \<Longrightarrow> c \<noteq> CHR ''*''"
  by (auto simp: isspace_def)

lemma get_header_loop_markers:
  "\<forall>l \<in> set f. is_marker l \<Longrightarrow> get_header_loop prev f = Inr None"
  by (induction f arbitrary: prev) (auto simp: is_marker_def split: list.splits)

section \<open>Header extraction: the results without a header\<close>

text \<open>
  Claim C7. On a stream without data lines (every line starts with the marker; the empty
  stream is one such), header extraction returns \<open>None\<close> and raises nothing.
\<close>

theorem header_none_without_data:
  "\<forall>l \<in> set f. is_marker l \<Longrightarrow> get_header_from_headsout_file f = Inr None"
  unfolding get_header_from_headsout_file_def by (rule get_header_loop_markers)

theorem header_none_without_data_witness:
  "is_marker ''* TIME 1 2\<newline>'' \<and> is_marker ''*\<newline>'' \<and>
   get_header_from_headsout_file [''* TIME 1 2\<newline>'', ''*\<newline>''] = Inr None \<and>
   get_header_from_headsout_file [] = Inr None"
  using header_none_without_data [of "[''* TIME 1 2\<newline>'', ''*\<newline>'']"]
    header_none_without_data [of "[]"]
  by (simp add: is_marker_def)

text \<open>
  Claim C9. When the first line of the stream is a data line, header extraction returns
  \<open>None\<close>, whatever follows: \<^verbatim>\<open>previous_line\<close> is still unbound, and the handler of the
  resulting \<open>NameError\<close> returns.
\<close>

theorem header_none_when_data_first:
  "is_data line \<Longrightarrow> get_header_from_headsout_file (line # rest) = Inr None"
  by (cases line) (simp_all add: is_data_def get_header_from_headsout_file_def)

theorem header_none_when_data_first_witness:
  "is_data ''01/01/2000_0000 1.1 2.2\<newline>'' \<and>
   get_header_from_headsout_file
     [''01/01/2000_0000 1.1 2.2\<newline>'', ''* TIME 1 2\<newline>'', ''3 4 5\<newline>''] = Inr None"
  using header_none_when_data_first
    [of "''01/01/2000_0000 1.1 2.2\<newline>''" "[''* TIME 1 2\<newline>'', ''3 4 5\<newline>'']"]
  by (simp add: is_data_def)

section \<open>The scenario of the specification\<close>

text \<open>
  Claim C2, as stated, fails: \<^verbatim>\<open>split\<close> makes \<open>*\<close> a token of its own, so the header of
  \<^verbatim>\<open>* 1 DATE NODE1 NODE2\<close> is not \<open>DATE, NODE1, NODE2\<close>, and the conversion of the two
  lines ends in an exception.
\<close>

theorem scenario_counterexample:
  "get_header_from_headsout_file
     [''* 1 DATE NODE1 NODE2\<newline>'', ''01/01/2000_0000 1.1 2.2\<newline>'']
     \<noteq> Inr (Some [''DATE'', ''NODE1'', ''NODE2'']) \<and>
   snd (headsout_to_csv [''* 1 DATE NODE1 NODE2\<newline>'', ''01/01/2000_0000 1.1 2.2\<newline>''])
     = Some UnboundLocalError"
  by (simp add: eval_defs)

text \<open>
  Claim C2, amended. Header extraction drops the first token only, the \<open>*\<close>. For the header
  line \<^verbatim>\<open>* 1 DATE NODE1 NODE2\<close> it returns \<open>1, DATE, NODE1, NODE2\<close>; the conversion writes
  the header line \<^verbatim>\<open>1,Layer,DATE,NODE1,NODE2\<close> and then fails on the data line, whose three
  tokens are one fewer than the four columns while no line with a date came before. For the
  header line \<^verbatim>\<open>* DATE NODE1 NODE2\<close> it returns \<open>DATE, NODE1, NODE2\<close>, the header written
  is \<open>DATE, Layer, NODE1, NODE2\<close>, and the data line gives the record
  \<open>01/01/2000_0000, 1, 1.1, 2.2\<close>.
\<close>

theorem scenario_amended:
  "get_header_from_headsout_file
     [''* 1 DATE NODE1 NODE2\<newline>'', ''01/01/2000_0000 1.1 2.2\<newline>'']
     = Inr (Some [''1'', ''DATE'', ''NODE1'', ''NODE2'']) \<and>
   headsout_to_csv [''* 1 DATE NODE1 NODE2\<newline>'', ''01/01/2000_0000 1.1 2.2\<newline>'']
     = (\<lparr>layer = None, date = None, line_list = [''01/01/2000_0000'', ''1.1'', ''2.2''],
          out_csv = ''1,Layer,DATE,NODE1,NODE2''\<rparr>, Some UnboundLocalError) \<and>
   get_header_from_headsout_file
     [''* DATE NODE1 NODE2\<newline>'', ''01/01/2000_0000 1.1 2.2\<newline>'']
     = Inr (Some [''DATE'', ''NODE1'', ''NODE2'']) \<and>
   list_insert 1 ''Layer'' [''DATE'', ''NODE1'', ''NODE2'']
     = [''DATE'', ''Layer'', ''NODE1'', ''NODE2''] \<and>
   headsout_to_csv [''* DATE NODE1 NODE2\<newline>'', ''01/01/2000_0000 1.1 2.2\<newline>'']
     = (\<lparr>layer = Some 1, date = Some ''01/01/2000_0000'',
          line_list = [''01/01/2000_0000'', ''1'', ''1.1'', ''2.2''],
          out_csv = ''DATE,Layer,NODE1,NODE2\<newline>01/01/2000_0000,1,1.1,2.2''\<rparr>, None)"
  by (simp add: eval_defs)

section \<open>The loop, line by line\<close>


lemma loop_body_marker: "is_marker l \<Longrightarrow> loop_body n i l st = (st, None)"
  by (cases l) (simp_all add: is_marker_def loop_body_def)

lemma loop_body_data_ok:
  assumes "is_data l" and "loop_body n i l st = (s, None)"
  shows "accepts n st l s"
proof -
  from assms(1) obtain c cs where l: "l = c # cs" and c: "c \<noteq> CHR ''*''"
    by (cases l) (auto simp: is_data_def)
  show ?thesis
    using assms(2) c unfolding l loop_body_def shape_line_def accepts_def list_insert_def
    by (auto simp: Let_def split: if_splits option.splits list.splits)
qed

lemma loop_body_fail_out:
  assumes "loop_body n i l st = (s, Some e)"
  shows "out_csv s = out_csv st"
  using assms unfolding loop_body_def shape_line_def
  by (auto simp: Let_def split: if_splits option.splits list.splits)

lemma loop_body_not_data: "\<not> is_data l \<Longrightarrow> loop_body n i l st = (s, None) \<Longrightarrow> s = st"
  by (cases l) (auto simp: is_data_def loop_body_def)

lemma for_lines_append:
  "for_lines n i (xs @ ys) st =
     (case for_lines n i xs st of
        (s, Some e) \<Rightarrow> (s, Some e)
      | (s, None) \<Rightarrow> for_lines n (i + length xs) ys s)"
  by (induction xs arbitrary: i st) (auto split: prod.splits option.splits)

lemma for_lines_markers:
  "\<forall>m \<in> set pre. is_marker m \<Longrightarrow> for_lines n i pre st = (st, None)"
  by (induction pre arbitrary: i) (simp_all add: loop_body_marker)

lemma accepts_out: "accepts n p l s \<Longrightarrow> out_csv s = out_csv p @ render s"
  by (auto simp: accepts_def render_def split: if_splits)


lemma trace_length:
  "for_lines n i f st = (fin, None) \<Longrightarrow> length (trace n i f st) = length (data_lines f)"
proof (induction f arbitrary: i st)
  case Nil
  then show ?case by (simp add: data_lines_def)
next
  case (Cons l f)
  then show ?case
    by (auto simp: data_lines_def split: prod.splits option.splits)
qed

lemma trace_accepts:
  "for_lines n i f st = (fin, None) \<Longrightarrow> k < length (data_lines f) \<Longrightarrow>
     accepts n ((st # trace n i f st) ! k) (data_lines f ! k) (trace n i f st ! k)"
proof (induction f arbitrary: i st k)
  case Nil
  then show ?case by (simp add: data_lines_def)
next
  case (Cons l f)
  from Cons.prems(1) obtain s where body: "loop_body n i l st = (s, None)"
    and rest: "for_lines n (i + 1) f s = (fin, None)"
    by (auto split: prod.splits option.splits)
  show ?case
  proof (cases "is_data l")
    case False
    with body have "s = st" by (simp add: loop_body_not_data)
    with False body Cons.IH [OF rest, of k] Cons.prems(2) show ?thesis
      by (simp add: data_lines_def)
  next
    case True
    note acc = loop_body_data_ok [OF True body]
    show ?thesis
    proof (cases k)
      case 0
      with True body acc show ?thesis by (simp add: data_lines_def)
    next
      case (Suc j)
      with Cons.prems(2) True have "j < length (data_lines f)" by (simp add: data_lines_def)
      from Cons.IH [OF rest this] Suc True body show ?thesis by (simp add: data_lines_def)
    qed
  qed
qed

lemma trace_out:
  "for_lines n i f st = (fin, None) \<Longrightarrow>
     out_csv fin = out_csv st @ concat (map render (trace n i f st))"
proof (induction f arbitrary: i st)
  case Nil
  then show ?case by simp
next
  case (Cons l f)
  from Cons.prems(1) obtain s where body: "loop_body n i l st = (s, None)"
    and rest: "for_lines n (i + 1) f s = (fin, None)"
    by (auto split: prod.splits option.splits)
  show ?case
  proof (cases "is_data l")
    case False
    with body have "s = st" by (simp add: loop_body_not_data)
    with False body Cons.IH [OF rest] show ?thesis by simp
  next
    case True
    from accepts_out [OF loop_body_data_ok [OF True body]] True body Cons.IH [OF rest]
    show ?thesis by simp
  qed
qed

lemma for_lines_fail_decomp:
  "for_lines n i f st = (fin, Some e) \<Longrightarrow>
     \<exists>pre l post s. f = pre @ l # post \<and> for_lines n i pre st = (s, None) \<and>
        loop_body n (i + length pre) l s = (fin, Some e)"
proof (induction f arbitrary: i st)
  case Nil
  then show ?case by simp
next
  case (Cons l f)
  show ?case
  proof (cases "loop_body n i l st")
    case (Pair s r)
    show ?thesis
    proof (cases r)
      case None
      with Pair Cons.prems have "for_lines n (i + 1) f s = (fin, Some e)" by simp
      from Cons.IH [OF this] obtain pre l' post s' where
        f: "f = pre @ l' # post" and p: "for_lines n (i + 1) pre s = (s', None)"
        and b: "loop_body n (i + 1 + length pre) l' s' = (fin, Some e)" by blast
      have "l # f = (l # pre) @ l' # post" using f by simp
      moreover have "for_lines n i (l # pre) st = (s', None)" using Pair None p by simp
      moreover have "loop_body n (i + length (l # pre)) l' s' = (fin, Some e)"
        using b by (simp add: add.commute add.left_commute)
      ultimately show ?thesis by blast
    next
      case (Some e')
      with Pair Cons.prems have "loop_body n (i + length ([]::string list)) l st = (fin, Some e)"
        by simp
      moreover have "l # f = [] @ l # f" by simp
      moreover have "for_lines n i [] st = (st, None)" by simp
      ultimately show ?thesis by blast
    qed
  qed
qed

lemma headsout_to_csv_header:
  "get_header_from_headsout_file f = Inr (Some header) \<Longrightarrow>
     headsout_to_csv f = for_lines (length header) 0 f (start header)"
  by (simp add: headsout_to_csv_def)


lemma start_fields:
  "layer (start header) = None" "date (start header) = None"
  "out_csv (start header) = py_join '','' (list_insert 1 ''Layer'' header)"
  by (simp_all add: start_def unbound_def)

lemma accepted_run:
  assumes "get_header_from_headsout_file f = Inr (Some header)"
    and "headsout_to_csv f = (fin, None)"
  shows "for_lines (length header) 0 f (start header) = (fin, None)"
  using assms by (simp add: headsout_to_csv_header)

lemma run_trace_accepts:
  assumes "get_header_from_headsout_file f = Inr (Some header)"
    and "headsout_to_csv f = (fin, None)"
    and "k < length (data_lines f)"
  shows "accepts (length header) ((start header # run_trace header f) ! k)
           (data_lines f ! k) (run_trace header f ! k)"
  using trace_accepts [OF accepted_run [OF assms(1,2)] assms(3)] by (simp add: run_trace_def)

lemma get_header_loop_Some_data:
  "get_header_loop prev f = Inr (Some h) \<Longrightarrow> \<exists>l \<in> set f. is_data l"
  by (induction f arbitrary: prev)
    (auto simp: is_data_def split: list.splits if_splits option.splits)

lemma accepted_header_nonempty:
  assumes "get_header_from_headsout_file f = Inr (Some header)"
    and "headsout_to_csv f = (fin, None)"
  shows "header \<noteq> []"
proof
  assume empty: "header = []"
  from assms(1) obtain l where "l \<in> set f" "is_data l"
    unfolding get_header_from_headsout_file_def by (blast dest: get_header_loop_Some_data)
  then have "data_lines f \<noteq> []" by (auto simp: data_lines_def filter_empty_conv)
  then have "0 < length (data_lines f)" by simp
  from run_trace_accepts [OF assms this] empty show False
    by (auto simp: accepts_def split: if_splits)
qed

lemma sample_header_found: "get_header_from_headsout_file sample_file = Inr (Some sample_header)"
  by (simp add: sample_file_def sample_header_def eval_defs)

lemma sample_result:
  "headsout_to_csv sample_file =
     (\<lparr>layer = Some 1, date = Some ''02/01/2000_0000'',
       line_list = [''02/01/2000_0000'', ''1'', ''5.5'', ''6.6''],
       out_csv = ''TIME,Layer,1,2\<newline>01/01/2000_0000,1,1.1,2.2\<newline>01/01/2000_0000,2,3.3,4.4\<newline>02/01/2000_0000,1,5.5,6.6''\<rparr>,
      None)"
  by (simp add: sample_file_def eval_defs)

lemma sample_data_lines:
  "data_lines sample_file =
     [''01/01/2000_0000 1.1 2.2\<newline>'', ''3.3 4.4\<newline>'', ''02/01/2000_0000 5.5 6.6\<newline>'']"
  by (simp add: sample_file_def data_lines_def is_data_def)

lemma bad_count_header:
  "get_header_from_headsout_file bad_count_file = Inr (Some sample_header)"
  by (simp add: bad_count_file_def sample_header_def eval_defs)

lemma bad_count_split:
  "bad_count_file =
     [''* TIME 1 2\<newline>'', ''01/01/2000_0000 1.1 2.2\<newline>'', ''*\<newline>''] @
       ''3.3 4.4 5.5 6.6\<newline>'' # [''7 8\<newline>'']"
  by (simp add: bad_count_file_def)

lemma bad_count_prefix:
  "for_lines (length sample_header) 0
     [''* TIME 1 2\<newline>'', ''01/01/2000_0000 1.1 2.2\<newline>'', ''*\<newline>'']
     (start sample_header) =
     (\<lparr>layer = Some 1, date = Some ''01/01/2000_0000'',
       line_list = [''01/01/2000_0000'', ''1'', ''1.1'', ''2.2''],
       out_csv = ''TIME,Layer,1,2\<newline>01/01/2000_0000,1,1.1,2.2''\<rparr>, None)"
  by (simp add: sample_header_def eval_defs)

lemma orphan_header:
  "get_header_from_headsout_file orphan_file = Inr (Some sample_header)"
  by (simp add: orphan_file_def sample_header_def eval_defs)

lemma orphan_split:
  "orphan_file = [''*\<newline>'', ''* TIME 1 2\<newline>''] @ ''3.3 4.4\<newline>'' # [''x y z\<newline>'']"
  by (simp add: orphan_file_def)

lemma bad_count_body:
  "loop_body (length sample_header)
     (length [''* TIME 1 2\<newline>'', ''01/01/2000_0000 1.1 2.2\<newline>'', ''*\<newline>''])
     ''3.3 4.4 5.5 6.6\<newline>''
     \<lparr>layer = Some 1, date = Some ''01/01/2000_0000'',
       line_list = [''01/01/2000_0000'', ''1'', ''1.1'', ''2.2''],
       out_csv = ''TIME,Layer,1,2\<newline>01/01/2000_0000,1,1.1,2.2''\<rparr> =
     (\<lparr>layer = Some 1, date = Some ''01/01/2000_0000'',
       line_list = [''3.3'', ''4.4'', ''5.5'', ''6.6''],
       out_csv = ''TIME,Layer,1,2\<newline>01/01/2000_0000,1,1.1,2.2''\<rparr>,
      Some (ValueError ''line 4 in file does not have the correct number of values''))"
  by (simp add: sample_header_def eval_defs)

lemma trace_length_le: "length (trace n i f st) \<le> length (data_lines f)"
proof (induction f arbitrary: i st)
  case Nil
  then show ?case by simp
next
  case (Cons l f)
  show ?case
  proof (cases "loop_body n i l st")
    case (Pair s r)
    with Cons.IH [of "i + 1" s] show ?thesis
      by (cases r) (auto simp: data_lines_def dest: loop_body_not_data)
  qed
qed

lemma trace_accepts_any:
  "k < length (trace n i f st) \<Longrightarrow>
     accepts n ((st # trace n i f st) ! k) (data_lines f ! k) (trace n i f st ! k)"
proof (induction f arbitrary: i st k)
  case Nil
  then show ?case by simp
next
  case (Cons l f)
  from Cons.prems obtain s where body: "loop_body n i l st = (s, None)"
    by (cases "loop_body n i l st") (auto split: option.splits)
  show ?case
  proof (cases "is_data l")
    case False
    with body have "s = st" by (simp add: loop_body_not_data)
    with False body Cons.IH [of k "i + 1" st] Cons.prems show ?thesis
      by (simp add: data_lines_def)
  next
    case True
    note acc = loop_body_data_ok [OF True body]
    show ?thesis
    proof (cases k)
      case 0
      with True body acc show ?thesis by (simp add: data_lines_def)
    next
      case (Suc j)
      with Cons.prems True body have "j < length (trace n (i + 1) f s)" by simp
      from Cons.IH [OF this] Suc True body show ?thesis by (simp add: data_lines_def)
    qed
  qed
qed

lemma trace_out_any:
  "out_csv (fst (for_lines n i f st)) = out_csv st @ concat (map render (trace n i f st))"
proof (induction f arbitrary: i st)
  case Nil
  then show ?case by simp
next
  case (Cons l f)
  show ?case
  proof (cases "loop_body n i l st")
    case (Pair s r)
    show ?thesis
    proof (cases r)
      case (Some e)
      with Pair loop_body_fail_out [of n i l st s e] show ?thesis by simp
    next
      case None
      show ?thesis
      proof (cases "is_data l")
        case False
        with Pair None have "s = st" by (simp add: loop_body_not_data)
        with False Pair None Cons.IH [of "i + 1" st] show ?thesis by simp
      next
        case True
        from accepts_out [OF loop_body_data_ok [OF True]] Pair None True
          Cons.IH [of "i + 1" s]
        show ?thesis by simp
      qed
    qed
  qed
qed

lemma written_text:
  assumes "get_header_from_headsout_file f = Inr (Some header)"
  shows "out_csv (fst (headsout_to_csv f)) =
     py_join '','' (list_insert 1 ''Layer'' header) @ concat (map render (run_trace header f))"
  using assms trace_out_any [of "length header" 0 f "start header"]
  by (simp add: headsout_to_csv_header run_trace_def start_fields)

lemma run_trace_accepts_any:
  "k < length (run_trace header f) \<Longrightarrow>
     accepts (length header) ((start header # run_trace header f) ! k)
       (data_lines f ! k) (run_trace header f ! k)"
  unfolding run_trace_def by (rule trace_accepts_any)

lemma run_trace_complete:
  assumes "get_header_from_headsout_file f = Inr (Some header)"
    and "snd (headsout_to_csv f) = None"
  shows "length (run_trace header f) = length (data_lines f)"
proof -
  from assms have "for_lines (length header) 0 f (start header) =
      (fst (headsout_to_csv f), None)"
    by (simp add: headsout_to_csv_header prod_eq_iff)
  from trace_length [OF this] show ?thesis by (simp add: run_trace_def)
qed

lemma trace_fail_prefix:
  "for_lines n i pre st = (s, None) \<Longrightarrow> loop_body n (i + length pre) l s = (s', Some e) \<Longrightarrow>
     trace n i (pre @ l # post) st = trace n i pre st"
proof (induction pre arbitrary: i st)
  case Nil
  then show ?case by simp
next
  case (Cons a pre)
  from Cons.prems(1) obtain s1 where body: "loop_body n i a st = (s1, None)"
    and rest: "for_lines n (i + 1) pre s1 = (s, None)"
    by (auto split: prod.splits option.splits)
  from Cons.prems(2) have "loop_body n (i + 1 + length pre) l s = (s', Some e)"
    by (simp add: add.commute add.left_commute)
  from Cons.IH [OF rest this] body show ?case by simp
qed

lemma run_trace_fail_prefix:
  assumes "for_lines (length header) 0 pre (start header) = (s, None)"
    and "loop_body (length header) (length pre) l s = (s', Some e)"
  shows "run_trace header (pre @ l # post) = run_trace header pre"
    and "length (run_trace header (pre @ l # post)) = length (data_lines pre)"
proof -
  show eq: "run_trace header (pre @ l # post) = run_trace header pre"
    using trace_fail_prefix [of "length header" 0 pre "start header" s l s' e post] assms
    by (simp add: run_trace_def)
  show "length (run_trace header (pre @ l # post)) = length (data_lines pre)"
    using trace_length [OF assms(1)] eq by (simp add: run_trace_def)
qed

lemma date_origin_any:
  "k < length (run_trace header f) \<Longrightarrow>
     \<exists>j \<le> k. length (py_split (data_lines f ! j)) = length header \<and>
        (\<forall>m. j < m \<and> m \<le> k \<longrightarrow> length (py_split (data_lines f ! m)) \<noteq> length header) \<and>
        date (run_trace header f ! k) = Some (hd (py_split (data_lines f ! j)))"
proof (induction k)
  case 0
  from run_trace_accepts_any [OF 0] show ?case
    by (auto simp: accepts_def start_fields split: if_splits)
next
  case (Suc k)
  let ?dl = "data_lines f" and ?tr = "run_trace header f"
  from Suc.prems have k: "k < length ?tr" by simp
  note acc = run_trace_accepts_any [OF Suc.prems]
  show ?case
  proof (cases "length (py_split (?dl ! Suc k)) = length header")
    case True
    with acc have "date (?tr ! Suc k) = Some (hd (py_split (?dl ! Suc k)))"
      by (auto simp: accepts_def)
    with True show ?thesis by auto
  next
    case False
    with acc have same: "date (?tr ! Suc k) = date (?tr ! k)"
      by (auto simp: accepts_def)
    from Suc.IH [OF k] obtain j where j: "j \<le> k"
      "length (py_split (?dl ! j)) = length header"
      "\<forall>m. j < m \<and> m \<le> k \<longrightarrow> length (py_split (?dl ! m)) \<noteq> length header"
      "date (?tr ! k) = Some (hd (py_split (?dl ! j)))" by blast
    have "\<forall>m. j < m \<and> m \<le> Suc k \<longrightarrow> length (py_split (?dl ! m)) \<noteq> length header"
      using j(3) False by (auto simp: le_Suc_eq)
    with j same show ?thesis by (intro exI [of _ j]) auto
  qed
qed

lemma bad_count_data_lines:
  "data_lines bad_count_file =
     [''01/01/2000_0000 1.1 2.2\<newline>'', ''3.3 4.4 5.5 6.6\<newline>'', ''7 8\<newline>'']"
  by (simp add: bad_count_file_def data_lines_def is_data_def)

lemma bad_count_result:
  "headsout_to_csv bad_count_file =
     (\<lparr>layer = Some 1, date = Some ''01/01/2000_0000'',
       line_list = [''3.3'', ''4.4'', ''5.5'', ''6.6''],
       out_csv = ''TIME,Layer,1,2\<newline>01/01/2000_0000,1,1.1,2.2''\<rparr>,
      Some (ValueError ''line 4 in file does not have the correct number of values''))"
  by (simp add: bad_count_file_def eval_defs)

lemma digit_val_digit_char: "d < 10 \<Longrightarrow> digit_val (digit_char d) = d"
proof -
  assume "d < 10"
  then have "d \<in> {0, 1, 2, 3, 4, 5, 6, 7, 8, 9}" by auto
  then show ?thesis
    by (auto simp: digit_val_def digit_char_def)
qed

lemma py_int_py_str: "py_int (py_str n) = n"
proof (induction n rule: py_str.induct)
  case (1 n)
  show ?case
  proof (cases "n < 10")
    case True
    then show ?thesis
      by (subst py_str.simps) (simp add: py_int_def digit_val_digit_char)
  next
    case False
    have "py_int (py_str n) = 10 * py_int (py_str (n div 10)) + digit_val (digit_char (n mod 10))"
      using False by (subst py_str.simps) (simp add: py_int_def)
    also have "\<dots> = 10 * (n div 10) + n mod 10"
      using "1.IH" [OF False] by (simp add: digit_val_digit_char)
    finally show ?thesis by simp
  qed
qed

lemma py_str_inject: "py_str a = py_str b \<Longrightarrow> a = b"
  by (metis py_int_py_str)

section \<open>Layer numbers\<close>



section \<open>Exceptions\<close>

text \<open>
  Claim C3. When the lines before a data line \<open>l\<close> are converted without an exception and
  the number of tokens of \<open>l\<close> is neither the number of columns nor one less, the conversion
  raises the \<open>ValueError\<close> whose message holds the number of \<open>l\<close> among all lines of the
  file, marker lines included, counted from 1.
\<close>

theorem wrong_count_raises:
  assumes "get_header_from_headsout_file f = Inr (Some header)"
    and "f = pre @ l # post"
    and "for_lines (length header) 0 pre (start header) = (s, None)"
    and "is_data l"
    and "length (py_split l) \<noteq> length header"
    and "int (length (py_split l)) \<noteq> int (length header) - 1"
  shows "headsout_to_csv f =
     (s\<lparr>line_list := py_split l\<rparr>,
      Some (ValueError (''line '' @ py_str (length pre + 1) @
              '' in file does not have the correct number of values'')))"
proof -
  from assms(4) obtain c cs where l: "l = c # cs" and c: "c \<noteq> CHR ''*''"
    by (cases l) (auto simp: is_data_def)
  have "loop_body (length header) (length pre) l s =
     (s\<lparr>line_list := py_split l\<rparr>,
      Some (ValueError (''line '' @ py_str (length pre + 1) @
              '' in file does not have the correct number of values'')))"
    using assms(5,6) c unfolding l loop_body_def shape_line_def by simp
  then show ?thesis
    using assms(1,2,3) by (simp add: headsout_to_csv_header for_lines_append)
qed

theorem wrong_count_raises_witness:
  "get_header_from_headsout_file bad_count_file = Inr (Some sample_header) \<and>
   is_data ''3.3 4.4 5.5 6.6\<newline>'' \<and>
   length (py_split ''3.3 4.4 5.5 6.6\<newline>'') = 4 \<and> length sample_header = 3 \<and>
   headsout_to_csv bad_count_file =
     (\<lparr>layer = Some 1, date = Some ''01/01/2000_0000'',
       line_list = [''3.3'', ''4.4'', ''5.5'', ''6.6''],
       out_csv = ''TIME,Layer,1,2\<newline>01/01/2000_0000,1,1.1,2.2''\<rparr>,
      Some (ValueError ''line 4 in file does not have the correct number of values''))"
proof -
  have d: "is_data ''3.3 4.4 5.5 6.6\<newline>''" by (simp add: is_data_def)
  have n: "length (py_split ''3.3 4.4 5.5 6.6\<newline>'') = 4" "length sample_header = 3"
    by (simp_all add: py_split_def isspace_def sample_header_def)
  have "headsout_to_csv bad_count_file =
     (\<lparr>layer = Some 1, date = Some ''01/01/2000_0000'',
       line_list = [''3.3'', ''4.4'', ''5.5'', ''6.6''],
       out_csv = ''TIME,Layer,1,2\<newline>01/01/2000_0000,1,1.1,2.2''\<rparr>,
      Some (ValueError ''line 4 in file does not have the correct number of values''))"
    using wrong_count_raises [OF bad_count_header bad_count_split bad_count_prefix d] n
    by (simp add: py_split_def isspace_def py_str.simps digit_char_def)
  with bad_count_header d n show ?thesis by simp
qed

text \<open>
  Claim C4. When the first data line of the stream has one token fewer than the header has
  columns, so that no line with a date comes before it, the conversion fails on it:
  \<^verbatim>\<open>layer += 1\<close> reads the unbound \<^verbatim>\<open>layer\<close>, and only the header line has been written.
\<close>

theorem orphan_continuation_raises:
  assumes "get_header_from_headsout_file f = Inr (Some header)"
    and "f = pre @ l # post"
    and "\<forall>m \<in> set pre. is_marker m"
    and "is_data l"
    and "int (length (py_split l)) = int (length header) - 1"
  shows "headsout_to_csv f = ((start header)\<lparr>line_list := py_split l\<rparr>, Some UnboundLocalError)"
proof -
  from assms(4) obtain c cs where l: "l = c # cs" and c: "c \<noteq> CHR ''*''"
    by (cases l) (auto simp: is_data_def)
  from assms(5) have ne: "length (py_split l) \<noteq> length header" by linarith
  have "loop_body (length header) (length pre) l (start header) =
     ((start header)\<lparr>line_list := py_split l\<rparr>, Some UnboundLocalError)"
    using assms(5) ne c unfolding l loop_body_def shape_line_def
    by (simp add: start_fields)
  then show ?thesis
    using assms(1,2) for_lines_markers [OF assms(3)]
    by (simp add: headsout_to_csv_header for_lines_append)
qed

theorem orphan_continuation_raises_witness:
  "get_header_from_headsout_file orphan_file = Inr (Some sample_header) \<and>
   is_marker ''*\<newline>'' \<and> is_marker ''* TIME 1 2\<newline>'' \<and> is_data ''3.3 4.4\<newline>'' \<and>
   length (py_split ''3.3 4.4\<newline>'') = 2 \<and> length sample_header = 3 \<and>
   headsout_to_csv orphan_file =
     (\<lparr>layer = None, date = None, line_list = [''3.3'', ''4.4''],
       out_csv = ''TIME,Layer,1,2''\<rparr>, Some UnboundLocalError)"
proof -
  have m: "\<forall>m \<in> set [''*\<newline>'', ''* TIME 1 2\<newline>'']. is_marker m"
    by (simp add: is_marker_def)
  have d: "is_data ''3.3 4.4\<newline>''" by (simp add: is_data_def)
  have n: "length (py_split ''3.3 4.4\<newline>'') = 2" "length sample_header = 3"
    by (simp_all add: py_split_def isspace_def sample_header_def)
  then have c: "int (length (py_split ''3.3 4.4\<newline>'')) = int (length sample_header) - 1"
    by simp
  have "headsout_to_csv orphan_file =
     (\<lparr>layer = None, date = None, line_list = [''3.3'', ''4.4''],
       out_csv = ''TIME,Layer,1,2''\<rparr>, Some UnboundLocalError)"
    using orphan_continuation_raises [OF orphan_header orphan_split m d c]
    by (simp add: py_split_def isspace_def start_def unbound_def sample_header_def
        list_insert_def)
  with orphan_header m d n show ?thesis by simp
qed

text \<open>
  Claim C8. When the lines before a line \<open>l\<close> are converted without an exception and the
  iteration on \<open>l\<close> raises one, the conversion ends with that exception and the text written
  is the text written before \<open>l\<close>: the header and the complete records of the data lines
  before \<open>l\<close>.
\<close>

theorem failure_writes_nothing:
  assumes "get_header_from_headsout_file f = Inr (Some header)"
    and "f = pre @ l # post"
    and "for_lines (length header) 0 pre (start header) = (s, None)"
    and "loop_body (length header) (length pre) l s = (s', Some e)"
  shows "headsout_to_csv f = (s', Some e) \<and> out_csv s' = out_csv s \<and>
     out_csv s = py_join '','' (list_insert 1 ''Layer'' header) @
                   concat (map render (run_trace header pre)) \<and>
     length (run_trace header pre) = length (data_lines pre)"
proof -
  have "headsout_to_csv f = (s', Some e)"
    using assms by (simp add: headsout_to_csv_header for_lines_append)
  moreover have "out_csv s' = out_csv s" using assms(4) by (rule loop_body_fail_out)
  moreover have "out_csv s = py_join '','' (list_insert 1 ''Layer'' header) @
                   concat (map render (run_trace header pre))"
    using trace_out [OF assms(3)] by (simp add: run_trace_def start_fields)
  moreover have "length (run_trace header pre) = length (data_lines pre)"
    using trace_length [OF assms(3)] by (simp add: run_trace_def)
  ultimately show ?thesis by blast
qed

theorem failure_writes_nothing_witness:
  "get_header_from_headsout_file bad_count_file = Inr (Some sample_header) \<and>
   headsout_to_csv bad_count_file =
     (\<lparr>layer = Some 1, date = Some ''01/01/2000_0000'',
       line_list = [''3.3'', ''4.4'', ''5.5'', ''6.6''],
       out_csv = ''TIME,Layer,1,2\<newline>01/01/2000_0000,1,1.1,2.2''\<rparr>,
      Some (ValueError ''line 4 in file does not have the correct number of values'')) \<and>
   ''TIME,Layer,1,2\<newline>01/01/2000_0000,1,1.1,2.2'' =
     py_join '','' (list_insert 1 ''Layer'' sample_header) @
       concat (map render (run_trace sample_header
         [''* TIME 1 2\<newline>'', ''01/01/2000_0000 1.1 2.2\<newline>'', ''*\<newline>''])) \<and>
   length (run_trace sample_header
         [''* TIME 1 2\<newline>'', ''01/01/2000_0000 1.1 2.2\<newline>'', ''*\<newline>'']) = 1"
  using failure_writes_nothing
    [OF bad_count_header bad_count_split bad_count_prefix bad_count_body] bad_count_header
  by (simp add: data_lines_def is_data_def)

text \<open>
  Claim C10. A non-empty line of whitespace only is a data line with no token. With two or
  more columns the iteration on it raises the \<open>ValueError\<close> for its line number; with one
  column it takes the branch of a line without a date: the layer is incremented and the
  record is the inherited date and the layer, or \<open>UnboundLocalError\<close> is raised when no
  line with a date came before.
\<close>

theorem blank_line_is_data:
  assumes "line \<noteq> []" and "\<forall>c \<in> set line. isspace c"
  shows "is_data line \<and> py_split line = [] \<and>
    (2 \<le> num_columns \<longrightarrow>
       loop_body num_columns i line st =
         (st\<lparr>line_list := []\<rparr>,
          Some (ValueError (''line '' @ py_str (i + 1) @
                  '' in file does not have the correct number of values'')))) \<and>
    loop_body 1 i line st =
      (case layer st of
         None \<Rightarrow> (st\<lparr>line_list := []\<rparr>, Some UnboundLocalError)
       | Some k \<Rightarrow>
           (case date st of
              None \<Rightarrow> (st\<lparr>layer := Some (k + 1), line_list := []\<rparr>, Some UnboundLocalError)
            | Some d \<Rightarrow>
                (st\<lparr>layer := Some (k + 1), line_list := [d, py_str (k + 1)],
                    out_csv := out_csv st @ ''\<newline>'' @ d @ '','' @ py_str (k + 1)\<rparr>, None)))"
proof -
  from assms obtain c cs where line: "line = c # cs" and c: "isspace c"
    by (cases line) auto
  have star: "c \<noteq> CHR ''*''" using c by (rule isspace_not_star)
  have sp: "py_split line = []" using assms(2) by (rule py_split_spaces)
  have sp': "py_split (c # cs) = []" using sp line by simp
  have "is_data line" using line star by (simp add: is_data_def)
  moreover have "2 \<le> num_columns \<longrightarrow>
       loop_body num_columns i line st =
         (st\<lparr>line_list := []\<rparr>,
          Some (ValueError (''line '' @ py_str (i + 1) @
                  '' in file does not have the correct number of values'')))"
    using star sp' by (auto simp: line loop_body_def shape_line_def)
  moreover have "loop_body 1 i line st =
      (case layer st of
         None \<Rightarrow> (st\<lparr>line_list := []\<rparr>, Some UnboundLocalError)
       | Some k \<Rightarrow>
           (case date st of
              None \<Rightarrow> (st\<lparr>layer := Some (k + 1), line_list := []\<rparr>, Some UnboundLocalError)
            | Some d \<Rightarrow>
                (st\<lparr>layer := Some (k + 1), line_list := [d, py_str (k + 1)],
                    out_csv := out_csv st @ ''\<newline>'' @ d @ '','' @ py_str (k + 1)\<rparr>, None)))"
    using star sp' by (simp add: line loop_body_def shape_line_def list_insert_def
        split: option.splits)
  ultimately show ?thesis using sp by blast
qed

theorem blank_line_is_data_witness:
  "isspace CHR ''\<newline>'' \<and> is_data ''\<newline>'' \<and> py_split ''\<newline>'' = [] \<and>
   loop_body 3 4 ''\<newline>'' (start sample_header) =
     ((start sample_header)\<lparr>line_list := []\<rparr>,
      Some (ValueError ''line 5 in file does not have the correct number of values'')) \<and>
   loop_body 1 4 ''\<newline>'' (start sample_header) =
     ((start sample_header)\<lparr>line_list := []\<rparr>, Some UnboundLocalError) \<and>
   loop_body 1 4 ''\<newline>''
     \<lparr>layer = Some 1, date = Some ''d'', line_list = [''d'', ''1''], out_csv = ''A,Layer''\<rparr> =
     (\<lparr>layer = Some 2, date = Some ''d'', line_list = [''d'', ''2''],
       out_csv = ''A,Layer\<newline>d,2''\<rparr>, None)"
proof -
  have ne: "''\<newline>'' \<noteq> []" by simp
  have sp: "\<forall>c \<in> set ''\<newline>''. isspace c" by (simp add: isspace_def)
  have two: "py_str (Suc (Suc 0)) = ''2''" "py_str 5 = ''5''"
    by (simp_all add: py_str.simps digit_char_def)
  from blank_line_is_data [OF ne sp, of 3 4 "start sample_header"]
    blank_line_is_data [OF ne sp, of 1 4
      "\<lparr>layer = Some 1, date = Some ''d'', line_list = [''d'', ''1''], out_csv = ''A,Layer''\<rparr>"]
    sp two
  show ?thesis by (simp add: start_fields)
qed

section \<open>Records and output text\<close>

text \<open>
  Claim C5. For a stream with a header, the text written is the header line followed by the
  rendered records of the run: one per data line converted before an exception, all data
  lines when none is raised. The record of such a data line without its field at position 1
  is the token list of the line when the line has as many tokens as the header has columns;
  otherwise it is the token list of the line after the first token of the closest earlier
  data line that has as many tokens as the header has columns.
\<close>

theorem record_round_trip:
  assumes "get_header_from_headsout_file f = Inr (Some header)"
  shows "out_csv (fst (headsout_to_csv f)) =
       py_join '','' (list_insert 1 ''Layer'' header) @
         concat (map render (run_trace header f)) \<and>
   length (run_trace header f) \<le> length (data_lines f) \<and>
   (snd (headsout_to_csv f) = None \<longrightarrow>
      length (run_trace header f) = length (data_lines f)) \<and>
   (\<forall>pre l post s s' e.
      f = pre @ l # post \<and> for_lines (length header) 0 pre (start header) = (s, None) \<and>
      loop_body (length header) (length pre) l s = (s', Some e) \<longrightarrow>
      length (run_trace header f) = length (data_lines pre)) \<and>
   (\<forall>k < length (run_trace header f).
     (length (py_split (data_lines f ! k)) = length header \<longrightarrow>
        del_at 1 (line_list (run_trace header f ! k)) = py_split (data_lines f ! k)) \<and>
     (length (py_split (data_lines f ! k)) \<noteq> length header \<longrightarrow>
        (\<exists>j < k. length (py_split (data_lines f ! j)) = length header \<and>
           (\<forall>m. j < m \<and> m \<le> k \<longrightarrow>
              length (py_split (data_lines f ! m)) \<noteq> length header) \<and>
           del_at 1 (line_list (run_trace header f ! k)) =
             hd (py_split (data_lines f ! j)) # py_split (data_lines f ! k))))"
proof -
  let ?n = "length header" and ?tr = "run_trace header f" and ?dl = "data_lines f"
  note wr = written_text [OF assms]
  have le: "length ?tr \<le> length ?dl"
    unfolding run_trace_def by (rule trace_length_le)
  have complete: "snd (headsout_to_csv f) = None \<longrightarrow> length ?tr = length ?dl"
    using run_trace_complete [OF assms] by blast
  have failing: "\<forall>pre l post s s' e.
      f = pre @ l # post \<and> for_lines ?n 0 pre (start header) = (s, None) \<and>
      loop_body ?n (length pre) l s = (s', Some e) \<longrightarrow>
      length ?tr = length (data_lines pre)"
    using run_trace_fail_prefix(2) by blast
  have full: "del_at 1 (line_list (?tr ! k)) = py_split (?dl ! k)"
    if "k < length ?tr" "length (py_split (?dl ! k)) = ?n" for k
    using run_trace_accepts_any [OF that(1)] that(2) by (auto simp: accepts_def del_at_def)
  have cont: "\<exists>j < k. length (py_split (?dl ! j)) = ?n \<and>
           (\<forall>m. j < m \<and> m \<le> k \<longrightarrow> length (py_split (?dl ! m)) \<noteq> ?n) \<and>
           del_at 1 (line_list (?tr ! k)) = hd (py_split (?dl ! j)) # py_split (?dl ! k)"
    if k: "k < length ?tr" and ne: "length (py_split (?dl ! k)) \<noteq> ?n" for k
  proof -
    from run_trace_accepts_any [OF k] ne obtain i d where
      p: "layer ((start header # ?tr) ! k) = Some i" "date ((start header # ?tr) ! k) = Some d"
      and r: "line_list (?tr ! k) = d # py_str (i + 1) # py_split (?dl ! k)"
      by (auto simp: accepts_def)
    from p(1) obtain k' where k': "k = Suc k'" by (cases k) (simp_all add: start_fields)
    with k have "k' < length ?tr" by simp
    from date_origin_any [OF this] obtain j where j: "j \<le> k'"
      "length (py_split (?dl ! j)) = ?n"
      "\<forall>m. j < m \<and> m \<le> k' \<longrightarrow> length (py_split (?dl ! m)) \<noteq> ?n"
      "date (?tr ! k') = Some (hd (py_split (?dl ! j)))" by blast
    from p(2) k' j(4) have d: "d = hd (py_split (?dl ! j))" by simp
    have "\<forall>m. j < m \<and> m \<le> k \<longrightarrow> length (py_split (?dl ! m)) \<noteq> ?n"
      using j(3) ne k' by (auto simp: le_Suc_eq)
    moreover have "del_at 1 (line_list (?tr ! k)) = hd (py_split (?dl ! j)) # py_split (?dl ! k)"
      using r d by (simp add: del_at_def)
    moreover have "j < k" using j(1) k' by simp
    ultimately show ?thesis using j(2) by blast
  qed
  from wr le complete failing full cont show ?thesis by blast
qed

theorem record_round_trip_witness:
  "get_header_from_headsout_file sample_file = Inr (Some sample_header) \<and>
   snd (headsout_to_csv sample_file) = None \<and>
   py_join '','' (list_insert 1 ''Layer'' sample_header) @
       concat (map render (run_trace sample_header sample_file)) =
     ''TIME,Layer,1,2\<newline>01/01/2000_0000,1,1.1,2.2\<newline>01/01/2000_0000,2,3.3,4.4\<newline>02/01/2000_0000,1,5.5,6.6'' \<and>
   del_at 1 (line_list (run_trace sample_header sample_file ! 0)) =
     [''01/01/2000_0000'', ''1.1'', ''2.2''] \<and>
   (\<exists>j < 1. length (py_split (data_lines sample_file ! j)) = length sample_header \<and>
      del_at 1 (line_list (run_trace sample_header sample_file ! 1)) =
        hd (py_split (data_lines sample_file ! j)) # [''3.3'', ''4.4'']) \<and>
   get_header_from_headsout_file bad_count_file = Inr (Some sample_header) \<and>
   snd (headsout_to_csv bad_count_file) =
     Some (ValueError ''line 4 in file does not have the correct number of values'') \<and>
   py_join '','' (list_insert 1 ''Layer'' sample_header) @
       concat (map render (run_trace sample_header bad_count_file)) =
     ''TIME,Layer,1,2\<newline>01/01/2000_0000,1,1.1,2.2'' \<and>
   length (run_trace sample_header bad_count_file) = 1 \<and>
   del_at 1 (line_list (run_trace sample_header bad_count_file ! 0)) =
     [''01/01/2000_0000'', ''1.1'', ''2.2'']"
proof -
  note T = record_round_trip [OF sample_header_found]
  note B = record_round_trip [OF bad_count_header]
  have ok: "snd (headsout_to_csv sample_file) = None" by (simp add: sample_result)
  from T [THEN conjunct1]
  have wr: "py_join '','' (list_insert 1 ''Layer'' sample_header) @
       concat (map render (run_trace sample_header sample_file)) =
     ''TIME,Layer,1,2\<newline>01/01/2000_0000,1,1.1,2.2\<newline>01/01/2000_0000,2,3.3,4.4\<newline>02/01/2000_0000,1,5.5,6.6''"
    by (simp add: sample_result)
  from T [THEN conjunct2, THEN conjunct2, THEN conjunct1] ok
  have len: "length (run_trace sample_header sample_file) = 3"
    by (simp add: sample_data_lines)
  note per = T [THEN conjunct2, THEN conjunct2, THEN conjunct2, THEN conjunct2, rule_format]
  have p0: "0 < length (run_trace sample_header sample_file)" using len by simp
  from per [OF p0]
  have k0: "del_at 1 (line_list (run_trace sample_header sample_file ! 0)) =
     [''01/01/2000_0000'', ''1.1'', ''2.2'']"
    by (simp add: sample_data_lines sample_header_def py_split_def isspace_def)
  have ne: "length (py_split (data_lines sample_file ! 1)) \<noteq> length sample_header"
    by (simp add: sample_data_lines sample_header_def py_split_def isspace_def)
  have k: "1 < length (run_trace sample_header sample_file)" using len by simp
  from per [OF k, THEN conjunct2, rule_format, OF ne]
  have k1: "\<exists>j < 1. length (py_split (data_lines sample_file ! j)) = length sample_header \<and>
      del_at 1 (line_list (run_trace sample_header sample_file ! 1)) =
        hd (py_split (data_lines sample_file ! j)) # [''3.3'', ''4.4'']"
    by (auto simp: sample_data_lines py_split_def isspace_def)
  have err: "snd (headsout_to_csv bad_count_file) =
     Some (ValueError ''line 4 in file does not have the correct number of values'')"
    by (simp add: bad_count_result)
  from B [THEN conjunct1]
  have bwr: "py_join '','' (list_insert 1 ''Layer'' sample_header) @
       concat (map render (run_trace sample_header bad_count_file)) =
     ''TIME,Layer,1,2\<newline>01/01/2000_0000,1,1.1,2.2''"
    by (simp add: bad_count_result)
  from B [THEN conjunct2, THEN conjunct2, THEN conjunct2, THEN conjunct1, rule_format,
      OF conjI [OF bad_count_split conjI [OF bad_count_prefix bad_count_body]]]
  have blen: "length (run_trace sample_header bad_count_file) = 1"
    by (simp add: data_lines_def is_data_def)
  note bper = B [THEN conjunct2, THEN conjunct2, THEN conjunct2, THEN conjunct2, rule_format]
  have q0: "0 < length (run_trace sample_header bad_count_file)" using blen by simp
  from bper [OF q0]
  have b0: "del_at 1 (line_list (run_trace sample_header bad_count_file ! 0)) =
     [''01/01/2000_0000'', ''1.1'', ''2.2'']"
    by (simp add: bad_count_data_lines sample_header_def py_split_def isspace_def)
  from wr k0 k1 sample_header_found ok bad_count_header err bwr blen b0
  show ?thesis by simp
qed

text \<open>
  Claim C6. On a stream converted without an exception, the text written is the header with
  \<open>Layer\<close> inserted at position 1, joined by commas, followed by one rendered record per
  data line, in the order of the lines: a line break and the fields joined by commas,
  nothing added. The record of a data line is its date, its layer number and the tokens of
  the line that follow the date. The header is not empty, so \<open>Layer\<close> is its second field.
\<close>

theorem output_discipline:
  assumes "get_header_from_headsout_file f = Inr (Some header)"
    and "headsout_to_csv f = (fin, None)"
  shows "out_csv fin = py_join '','' (list_insert 1 ''Layer'' header) @
                          concat (map render (run_trace header f)) \<and>
     length (run_trace header f) = length (data_lines f) \<and>
     (\<forall>k < length (data_lines f).
        \<exists>d j. date (run_trace header f ! k) = Some d \<and>
           layer (run_trace header f ! k) = Some j \<and>
           line_list (run_trace header f ! k) =
           d # py_str j #
             (if length (py_split (data_lines f ! k)) = length header
              then tl (py_split (data_lines f ! k)) else py_split (data_lines f ! k))) \<and>
     (\<exists>c cs. header = c # cs \<and> list_insert 1 ''Layer'' header = c # ''Layer'' # cs)"
proof -
  note run = accepted_run [OF assms]
  have "out_csv fin = py_join '','' (list_insert 1 ''Layer'' header) @
                          concat (map render (run_trace header f))"
    using trace_out [OF run] by (simp add: run_trace_def start_fields)
  moreover have "length (run_trace header f) = length (data_lines f)"
    using trace_length [OF run] by (simp add: run_trace_def)
  moreover have "\<exists>d j. date (run_trace header f ! k) = Some d \<and>
           layer (run_trace header f ! k) = Some j \<and>
           line_list (run_trace header f ! k) =
           d # py_str j #
             (if length (py_split (data_lines f ! k)) = length header
              then tl (py_split (data_lines f ! k)) else py_split (data_lines f ! k))"
    if "k < length (data_lines f)" for k
    using run_trace_accepts [OF assms that] by (auto simp: accepts_def)
  moreover have "\<exists>c cs. header = c # cs \<and> list_insert 1 ''Layer'' header = c # ''Layer'' # cs"
    using accepted_header_nonempty [OF assms] by (cases header) (simp_all add: list_insert_def)
  ultimately show ?thesis by blast
qed

theorem output_discipline_witness:
  "get_header_from_headsout_file sample_file = Inr (Some sample_header) \<and>
   snd (headsout_to_csv sample_file) = None \<and>
   ''TIME,Layer,1,2\<newline>01/01/2000_0000,1,1.1,2.2\<newline>01/01/2000_0000,2,3.3,4.4\<newline>02/01/2000_0000,1,5.5,6.6'' =
     py_join '','' (list_insert 1 ''Layer'' sample_header) @
       concat (map render (run_trace sample_header sample_file)) \<and>
   length (run_trace sample_header sample_file) = 3 \<and>
   (\<exists>d j. date (run_trace sample_header sample_file ! 1) = Some d \<and>
      layer (run_trace sample_header sample_file ! 1) = Some j \<and>
      line_list (run_trace sample_header sample_file ! 1) = [d, py_str j, ''3.3'', ''4.4''])"
proof -
  note T = output_discipline [OF sample_header_found sample_result]
  have k: "(1::nat) < length (data_lines sample_file)" by (simp add: sample_data_lines)
  from T [THEN conjunct2, THEN conjunct2, THEN conjunct1, rule_format, OF k]
  have k1: "\<exists>d j. date (run_trace sample_header sample_file ! 1) = Some d \<and>
      layer (run_trace sample_header sample_file ! 1) = Some j \<and>
      line_list (run_trace sample_header sample_file ! 1) = [d, py_str j, ''3.3'', ''4.4'']"
    by (simp add: sample_data_lines sample_header_def py_split_def isspace_def)
  from T [THEN conjunct1] T [THEN conjunct2, THEN conjunct1] k1 sample_header_found sample_result
  show ?thesis by (simp add: sample_data_lines)
qed

end
